theory Spec2Isabelle
  imports Complex_Main
begin

section \<open>Strings of the selector dialect\<close>

text \<open>
  Selectors are modelled as ASCII strings (\<^typ>\<open>string\<close>). The character classes below are
  the ASCII part of the classes the regular expressions of \<open>AutoHealing.ts\<close> use:
  \<open>\s\<close> is tab, line feed, vertical tab, form feed, carriage return and space;
  \<open>\w\<close> is a letter, a digit or the underscore. Case conversion acts on the ASCII letters.
\<close>

definition upperChars :: string where
  "upperChars = ''ABCDEFGHIJKLMNOPQRSTUVWXYZ''"

definition lowerChars :: string where
  "lowerChars = ''abcdefghijklmnopqrstuvwxyz''"

definition digitChars :: string where
  "digitChars = ''0123456789''"

definition isSpace :: "char \<Rightarrow> bool" where
  "isSpace c = (c \<in> set [CHR 0x09, CHR 0x0A, CHR 0x0B, CHR 0x0C, CHR 0x0D, CHR 0x20])"

definition isUpper :: "char \<Rightarrow> bool" where
  "isUpper c = (c \<in> set upperChars)"

definition isAlnum :: "char \<Rightarrow> bool" where
  "isAlnum c = (c \<in> set (lowerChars @ upperChars @ digitChars))"

definition isWordOrDash :: "char \<Rightarrow> bool" where
  "isWordOrDash c = (isAlnum c \<or> c = CHR ''_'' \<or> c = CHR ''-'')"

definition toLowerChar :: "char \<Rightarrow> char" where
  "toLowerChar c = (case map_of (zip upperChars lowerChars) c of Some l \<Rightarrow> l | None \<Rightarrow> c)"

definition toUpperChar :: "char \<Rightarrow> char" where
  "toUpperChar c = (case map_of (zip lowerChars upperChars) c of Some u \<Rightarrow> u | None \<Rightarrow> c)"

definition toLowerCase :: "string \<Rightarrow> string" where
  "toLowerCase s = map toLowerChar s"

definition toUpperCase :: "string \<Rightarrow> string" where
  "toUpperCase s = map toUpperChar s"

definition trim :: "string \<Rightarrow> string" where
  "trim s = rev (dropWhile isSpace (rev (dropWhile isSpace s)))"

text \<open>\<open>str.includes(sub)\<close>: \<open>sub\<close> occurs in \<open>str\<close> as a contiguous block.\<close>

fun includesStr :: "string \<Rightarrow> string \<Rightarrow> bool" where
  "includesStr [] sub = (sub = [])"
| "includesStr (c # cs) sub = (take (length sub) (c # cs) = sub \<or> includesStr cs sub)"

text \<open>\<open>str.charAt(0).toUpperCase() + str.slice(1)\<close>\<close>

fun capitalizeFirst :: "string \<Rightarrow> string" where
  "capitalizeFirst [] = []"
| "capitalizeFirst (c # cs) = toUpperChar c # cs"

text \<open>Decimal rendering of an integer inside a template literal.\<close>

definition digitOf :: "nat \<Rightarrow> char" where
  "digitOf d = digitChars ! d"

function showNat :: "nat \<Rightarrow> string" where
  "showNat n = (if n < 10 then [digitOf n] else showNat (n div 10) @ [digitOf (n mod 10)])"
  by pat_completeness auto
termination
  by (relation "measure id") auto

declare showNat.simps [simp del]

definition showInt :: "int \<Rightarrow> string" where
  "showInt i = (if i < 0 then CHR ''-'' # showNat (nat (- i)) else showNat (nat i))"


section \<open>Identifier extraction\<close>

text \<open>
  \<open>/#([^.\s\[]+)/\<close> and \<open>/\.([^#\s\[]+)/\<close>: the leftmost marker character that is followed by
  at least one permitted character; the capture is the maximal run of permitted characters.
\<close>

fun captureRun :: "char \<Rightarrow> (char \<Rightarrow> bool) \<Rightarrow> string \<Rightarrow> string option" where
  "captureRun m ok [] = None"
| "captureRun m ok (c # cs) =
     (if c = m \<and> takeWhile ok cs \<noteq> [] then Some (takeWhile ok cs) else captureRun m ok cs)"

definition idMatch :: "string \<Rightarrow> string option" where
  "idMatch = captureRun (CHR ''#'') (\<lambda>c. c \<noteq> CHR ''.'' \<and> \<not> isSpace c \<and> c \<noteq> CHR ''['')"

definition classMatch :: "string \<Rightarrow> string option" where
  "classMatch = captureRun (CHR ''.'') (\<lambda>c. c \<noteq> CHR ''#'' \<and> \<not> isSpace c \<and> c \<noteq> CHR ''['')"

text \<open>
  The quoted value: the maximal non-empty run of characters other than the double quote,
  which must be followed by the given closing text.
\<close>

definition quotedValue :: "string \<Rightarrow> string \<Rightarrow> string option" where
  "quotedValue closing cs =
     (let v = takeWhile (\<lambda>c. c \<noteq> CHR 0x22) cs;
          r = dropWhile (\<lambda>c. c \<noteq> CHR 0x22) cs
      in if v \<noteq> [] \<and> take (length closing) r = closing then Some v else None)"

text \<open>\<open>/\[[\w-]+="([^"]+)"\]/\<close>, tried at the text that follows an opening bracket.\<close>

definition attrAt :: "string \<Rightarrow> string option" where
  "attrAt cs =
     (let nm = takeWhile isWordOrDash cs;
          r = dropWhile isWordOrDash cs
      in if nm \<noteq> [] \<and> take 2 r = ''=\"'' then quotedValue ''\"]'' (drop 2 r) else None)"

fun attrMatch :: "string \<Rightarrow> string option" where
  "attrMatch [] = None"
| "attrMatch (c # cs) =
     (if c = CHR ''[''
      then (case attrAt cs of Some v \<Rightarrow> Some v | None \<Rightarrow> attrMatch cs)
      else attrMatch cs)"

text \<open>\<open>/:contains\("([^"]+)"\)/\<close>\<close>

definition containsAt :: "string \<Rightarrow> string option" where
  "containsAt cs =
     (if take 11 cs = '':contains(\"'' then quotedValue ''\")'' (drop 11 cs) else None)"

fun containsMatch :: "string \<Rightarrow> string option" where
  "containsMatch [] = None"
| "containsMatch (c # cs) =
     (case containsAt (c # cs) of Some v \<Rightarrow> Some v | None \<Rightarrow> containsMatch cs)"

definition extractIdentifier :: "string \<Rightarrow> string option" where
  "extractIdentifier selector =
     (case idMatch selector of Some v \<Rightarrow> Some v | None \<Rightarrow>
      (case classMatch selector of Some v \<Rightarrow> Some v | None \<Rightarrow>
       (case attrMatch selector of Some v \<Rightarrow> Some v | None \<Rightarrow>
        containsMatch selector)))"

text \<open>The test \<open>if (identifier)\<close>: neither \<open>null\<close> nor the empty string.\<close>

fun truthy :: "string option \<Rightarrow> bool" where
  "truthy None = False"
| "truthy (Some s) = (s \<noteq> [])"


section \<open>Healing strategies\<close>

datatype Sensitivity = low | medium | high

record AutoHealingConfig =
  enabled :: bool
  sensitivity :: Sensitivity
  maxRetries :: int
  reportPath :: string

record HealingStrategy =
  name :: string
  priority :: int
  selectors :: "string list"

definition attributes :: "string list" where
  "attributes = [''id'', ''name'', ''data-testid'', ''data-cy'', ''data-test'', ''class'',
                 ''aria-label'']"

definition attributeSelectors :: "string \<Rightarrow> string \<Rightarrow> string list" where
  "attributeSelectors identifier attr =
     [''['' @ attr @ ''=\"'' @ identifier @ ''\"]'',
      ''['' @ attr @ ''*=\"'' @ identifier @ ''\"]'',
      ''['' @ attr @ ''^=\"'' @ identifier @ ''\"]'',
      ''['' @ attr @ ''$=\"'' @ identifier @ ''\"]'']"

definition getAttributeStrategy :: "string \<Rightarrow> HealingStrategy" where
  "getAttributeStrategy originalSelector =
     (let identifier = extractIdentifier originalSelector
      in \<lparr> name = ''Attribute Strategy'', priority = 1,
           selectors = (if truthy identifier
                        then concat (map (attributeSelectors (the identifier)) attributes)
                        else []) \<rparr>)"

text \<open>
  The object literals \<open>semanticMap\<close> and \<open>roleMap\<close>, read at their own keys: a hint that is
  none of the six keys finds nothing. (A hint that names a property every object inherits,
  such as \<open>constructor\<close>, is not a hint of the closed set and is outside the model.)
\<close>

definition semanticMap :: "(string \<times> string list) list" where
  "semanticMap =
     [(''button'', [''button'', ''[role=\"button\"]'', ''input[type=\"submit\"]'',
                    ''input[type=\"button\"]'']),
      (''input'', [''input'', ''[role=\"textbox\"]'', ''textarea'', ''[contenteditable=\"true\"]'']),
      (''link'', [''a'', ''[role=\"link\"]'']),
      (''select'', [''select'', ''[role=\"combobox\"]'', ''[role=\"listbox\"]'']),
      (''text'', [''span'', ''div'', ''p'', ''[role=\"text\"]'', ''label'']),
      (''container'', [''div'', ''section'', ''article'', ''[role=\"main\"]'',
                       ''[role=\"region\"]''])]"

definition getSemanticStrategy :: "string \<Rightarrow> HealingStrategy" where
  "getSemanticStrategy elementType =
     \<lparr> name = ''Semantic Strategy'', priority = 2,
       selectors = (case map_of semanticMap elementType of Some ss \<Rightarrow> ss | None \<Rightarrow> []) \<rparr>"

definition textVariationSelectors :: "string \<Rightarrow> string list" where
  "textVariationSelectors variation =
     [''button:contains(\"'' @ variation @ ''\")'',
      ''a:contains(\"'' @ variation @ ''\")'',
      ''[aria-label=\"'' @ variation @ ''\"]'',
      ''[title=\"'' @ variation @ ''\"]'']"

text \<open>\<open>.replace(/([A-Z])/g, ' $1')\<close> and \<open>.replace(/[-_]/g, ' ')\<close>\<close>

definition spaceBeforeUpper :: "string \<Rightarrow> string" where
  "spaceBeforeUpper s = concat (map (\<lambda>c. if isUpper c then [CHR '' '', c] else [c]) s)"

definition dashesToSpaces :: "string \<Rightarrow> string" where
  "dashesToSpaces s = map (\<lambda>c. if c = CHR ''-'' \<or> c = CHR ''_'' then CHR '' '' else c) s"

definition readableText :: "string \<Rightarrow> string" where
  "readableText identifier = toLowerCase (trim (dashesToSpaces (spaceBeforeUpper identifier)))"

definition getTextStrategy :: "string \<Rightarrow> HealingStrategy" where
  "getTextStrategy originalSelector =
     (let identifier = extractIdentifier originalSelector
      in \<lparr> name = ''Text Strategy'', priority = 3,
           selectors =
             (if truthy identifier
              then (let ident = the identifier;
                        readable = readableText ident;
                        commonVariations =
                          [readable, capitalizeFirst readable, toUpperCase readable, ident]
                    in ['':contains(\"'' @ readable @ ''\")'',
                        '':contains(\"'' @ ident @ ''\")'']
                       @ concat (map textVariationSelectors commonVariations))
              else []) \<rparr>)"

definition getStructuralStrategy :: "AutoHealingConfig \<Rightarrow> string \<Rightarrow> HealingStrategy" where
  "getStructuralStrategy config originalSelector =
     \<lparr> name = ''Structural Strategy'', priority = 4,
       selectors =
         (if includesStr originalSelector ''form''
          then [''form input'', ''form button'', ''form select'', ''form textarea''] else [])
         @ (if includesStr originalSelector ''nav'' \<or> includesStr originalSelector ''menu''
            then [''nav a'', ''nav button'', ''[role=\"navigation\"] a'', ''[role=\"menuitem\"]'']
            else [])
         @ (if includesStr originalSelector ''table''
            then [''table td'', ''table th'', ''table button'', ''table a''] else [])
         @ (if sensitivity config = high
            then ['':first'', '':last'', '':nth-child(1)'', '':nth-child(2)''] else []) \<rparr>"

definition roleMap :: "(string \<times> string list) list" where
  "roleMap =
     [(''button'', [''[role=\"button\"]'']),
      (''input'', [''[role=\"textbox\"]'', ''[role=\"searchbox\"]'']),
      (''link'', [''[role=\"link\"]'']),
      (''select'', [''[role=\"combobox\"]'', ''[role=\"listbox\"]'']),
      (''text'', [''[role=\"text\"]'', ''[role=\"heading\"]'']),
      (''container'', [''[role=\"main\"]'', ''[role=\"region\"]'', ''[role=\"section\"]''])]"

definition getRoleStrategy :: "string option \<Rightarrow> HealingStrategy" where
  "getRoleStrategy elementType =
     \<lparr> name = ''Role Strategy'', priority = 5,
       selectors =
         (if truthy elementType
          then (case map_of roleMap (the elementType) of Some ss \<Rightarrow> ss | None \<Rightarrow> [])
          else [])
         @ [''[role=\"banner\"]'', ''[role=\"navigation\"]'', ''[role=\"main\"]'',
            ''[role=\"complementary\"]'', ''[role=\"contentinfo\"]''] \<rparr>"

definition getFuzzyMatchingStrategy :: "string \<Rightarrow> HealingStrategy" where
  "getFuzzyMatchingStrategy originalSelector =
     (let identifier = extractIdentifier originalSelector
      in \<lparr> name = ''Fuzzy Matching Strategy'', priority = 6,
           selectors =
             (if truthy identifier \<and> length (the identifier) > 3
              then (let ident = the identifier;
                        partialId = take (length ident div 2) ident;
                        cleanId = filter isAlnum ident
                    in [''[id*=\"'' @ partialId @ ''\"]'',
                        ''[class*=\"'' @ partialId @ ''\"]'',
                        ''[data-testid*=\"'' @ partialId @ ''\"]'']
                       @ (if cleanId \<noteq> ident
                          then [''[id*=\"'' @ cleanId @ ''\"]'', ''[class*=\"'' @ cleanId @ ''\"]'']
                          else []))
              else []) \<rparr>)"

definition getSensitivityMaxPriority :: "AutoHealingConfig \<Rightarrow> int" where
  "getSensitivityMaxPriority config =
     (case sensitivity config of low \<Rightarrow> 2 | medium \<Rightarrow> 4 | high \<Rightarrow> 6)"

text \<open>\<open>Array.prototype.sort\<close> is stable, as \<^const>\<open>sort_key\<close> is.\<close>

definition filterStrategiesBySensitivity ::
  "AutoHealingConfig \<Rightarrow> HealingStrategy list \<Rightarrow> HealingStrategy list" where
  "filterStrategiesBySensitivity config strategies =
     sort_key priority
       (filter (\<lambda>strategy. priority strategy \<le> getSensitivityMaxPriority config) strategies)"

definition getHealingStrategies ::
  "AutoHealingConfig \<Rightarrow> string \<Rightarrow> string option \<Rightarrow> HealingStrategy list" where
  "getHealingStrategies config originalSelector elementType =
     filterStrategiesBySensitivity config
       ([getAttributeStrategy originalSelector]
        @ (if truthy elementType then [getSemanticStrategy (the elementType)] else [])
        @ [getTextStrategy originalSelector,
           getStructuralStrategy config originalSelector,
           getRoleStrategy elementType,
           getFuzzyMatchingStrategy originalSelector])"


section \<open>The resolution loop\<close>

datatype HealingAction = locator_updated | element_found | healing_failed

record HealingLog =
  timestamp :: string
  testFile :: string
  oldSelector :: string
  newSelector :: string
  action :: HealingAction
  elementTypeLogged :: string

text \<open>
  The host runner, as \<open>findElement\<close> reads it. \<open>findCount k sel\<close> is
  \<open>$body.find(sel).length\<close> in the callback of attempt \<open>k\<close> (the body is fetched anew for
  every attempt, and every query is taken to answer with a count); \<open>random k\<close> is the value
  \<open>Math.random()\<close> returns when the delay after attempt \<open>k\<close> is computed; \<open>isoNow\<close> is
  \<open>new Date().toISOString()\<close> and \<open>specRelative\<close> is \<open>Cypress.spec.relative\<close>.
\<close>

record Host =
  findCount :: "nat \<Rightarrow> string \<Rightarrow> nat"
  random :: "nat \<Rightarrow> real"
  isoNow :: string
  specRelative :: string

text \<open>
  The commands the resolver issues to the runner, in order. A \<open>cy.task('log', ...)\<close> or
  \<open>cy.log(...)\<close> call is kept by the values its message is built from.
\<close>

datatype Command =
    TaskLogAttempt nat string
  | TaskLogSuccess string string
  | TaskUpdateLocator string string string
  | TaskLogSuggestion string string string string
  | CyLogAttempt nat string
  | CyLogFound string
  | Wait real

record Session =
  healingLogs :: "HealingLog list"
  issued :: "Command list"

datatype Outcome = CyGet string | Thrown string

definition issue :: "Command \<Rightarrow> Session \<Rightarrow> Session" where
  "issue c s = s\<lparr>issued := issued s @ [c]\<rparr>"

text \<open>
  The delay after attempt \<open>attempt\<close>, in milliseconds; \<open>rnd\<close> is the value of
  \<open>Math.random()\<close>, at least 0 and less than 1. The model computes in exact real numbers
  where the code computes in doubles, whose sum can round up to the bound the real sum
  stays below: bounds on the delay are therefore stated with \<open>\<le>\<close>.
\<close>

definition getRetryDelay :: "real \<Rightarrow> nat \<Rightarrow> real" where
  "getRetryDelay rnd attempt =
     (let baseDelay = 1000;
          maxDelay = 5000;
          delay = min (baseDelay * (if attempt = 0 then 1 / 2 else 2 ^ (attempt - 1))) maxDelay;
          jitter = rnd * (1 / 10) * delay
      in delay + jitter)"

definition logHealingAction :: "HealingLog \<Rightarrow> Session \<Rightarrow> Session" where
  "logHealingAction entry s =
     issue (TaskUpdateLocator (oldSelector entry) (newSelector entry) (testFile entry))
       (s\<lparr>healingLogs := healingLogs s @ [entry]\<rparr>)"

definition suggestSelectorUpdate :: "Host \<Rightarrow> string \<Rightarrow> string \<Rightarrow> string \<Rightarrow> Session \<Rightarrow> Session" where
  "suggestSelectorUpdate host old new strategy s =
     issue (TaskLogSuggestion old new strategy (specRelative host)) s"

definition orUnknown :: "string option \<Rightarrow> string" where
  "orUnknown elementType = (if truthy elementType then the elementType else ''unknown'')"

text \<open>The two nested \<open>for\<close> loops: the first selector of the first strategy that finds an element.\<close>

fun trySelectors :: "(string \<Rightarrow> nat) \<Rightarrow> string list \<Rightarrow> string option" where
  "trySelectors body [] = None"
| "trySelectors body (selector # rest) =
     (if body selector > 0 then Some selector else trySelectors body rest)"

fun tryStrategies :: "(string \<Rightarrow> nat) \<Rightarrow> HealingStrategy list \<Rightarrow> (HealingStrategy \<times> string) option" where
  "tryStrategies body [] = None"
| "tryStrategies body (strategy # rest) =
     (case trySelectors body (selectors strategy) of
        Some selector \<Rightarrow> Some (strategy, selector)
      | None \<Rightarrow> tryStrategies body rest)"

definition failureMessage :: "AutoHealingConfig \<Rightarrow> string \<Rightarrow> string" where
  "failureMessage config originalSelector =
     ''Auto-healing failed: Element not found with selector \"'' @ originalSelector
     @ ''\" after '' @ showInt (maxRetries config)
     @ '' attempts using all available strategies''"

definition allAttemptsFailed ::
  "AutoHealingConfig \<Rightarrow> Host \<Rightarrow> string \<Rightarrow> string option \<Rightarrow> nat \<Rightarrow> Session
   \<Rightarrow> Outcome \<times> nat \<times> Session" where
  "allAttemptsFailed config host originalSelector elementType attempts s =
     (Thrown (failureMessage config originalSelector), attempts,
      logHealingAction
        \<lparr> timestamp = isoNow host, testFile = specRelative host,
          oldSelector = originalSelector, newSelector = [],
          action = healing_failed, elementTypeLogged = orUnknown elementType \<rparr> s)"

definition healed ::
  "Host \<Rightarrow> string \<Rightarrow> string option \<Rightarrow> HealingStrategy \<Rightarrow> string \<Rightarrow> Session \<Rightarrow> Session" where
  "healed host originalSelector elementType strategy selector s =
     suggestSelectorUpdate host originalSelector selector (name strategy)
       (logHealingAction
          \<lparr> timestamp = isoNow host, testFile = specRelative host,
            oldSelector = originalSelector, newSelector = selector,
            action = element_found, elementTypeLogged = orUnknown elementType \<rparr>
          (issue (TaskLogSuccess (name strategy) selector) s))"

text \<open>
  \<open>attemptFind\<close>; its argument \<open>tried\<close> is the closure variable \<open>attempts\<close> before the
  increment. The result carries the value of \<open>attempts\<close> at the return or throw.
\<close>

function attemptFind ::
  "AutoHealingConfig \<Rightarrow> Host \<Rightarrow> string \<Rightarrow> string option \<Rightarrow> nat \<Rightarrow> Session
   \<Rightarrow> Outcome \<times> nat \<times> Session" where
  "attemptFind config host originalSelector elementType tried s =
     (if findCount host (tried + 1) originalSelector > 0
      then (CyGet originalSelector, tried + 1, s)
      else if int (tried + 1) \<le> maxRetries config
      then (case tryStrategies (findCount host (tried + 1))
                   (getHealingStrategies config originalSelector elementType) of
              Some (strategy, selector) \<Rightarrow>
                (CyGet selector, tried + 1,
                 healed host originalSelector elementType strategy selector
                   (issue (TaskLogAttempt (tried + 1) originalSelector) s))
            | None \<Rightarrow>
                if int (tried + 1) < maxRetries config
                then attemptFind config host originalSelector elementType (tried + 1)
                       (issue (Wait (getRetryDelay (random host (tried + 1)) (tried + 1)))
                          (issue (TaskLogAttempt (tried + 1) originalSelector) s))
                else allAttemptsFailed config host originalSelector elementType (tried + 1)
                       (issue (TaskLogAttempt (tried + 1) originalSelector) s))
      else allAttemptsFailed config host originalSelector elementType (tried + 1) s)"
  by pat_completeness auto
termination
  by (relation "measure (\<lambda>(config, host, originalSelector, elementType, tried, s).
                   nat (maxRetries config - int tried))") auto

declare attemptFind.simps [simp del]

definition findElement ::
  "AutoHealingConfig \<Rightarrow> Host \<Rightarrow> string \<Rightarrow> string option \<Rightarrow> Session
   \<Rightarrow> Outcome \<times> nat \<times> Session" where
  "findElement config host originalSelector elementType s =
     (if \<not> enabled config then (CyGet originalSelector, 0, s)
      else attemptFind config host originalSelector elementType 0 s)"


section \<open>The command \<open>getWithHealing\<close>\<close>

text \<open>\<open>str.replace(/[#.]/, '')\<close>: the first \<open>#\<close> or dot is removed.\<close>

fun removeFirst :: "(char \<Rightarrow> bool) \<Rightarrow> string \<Rightarrow> string" where
  "removeFirst P [] = []"
| "removeFirst P (c # cs) = (if P c then cs else c # removeFirst P cs)"

definition testAttributes :: "string list" where
  "testAttributes = [''data-testid'', ''data-cy'', ''data-test'', ''aria-label'', ''title'',
                     ''name'']"

definition generateAlternativeSelectors :: "string \<Rightarrow> string list" where
  "generateAlternativeSelectors originalSelector =
     (let rest = drop 1 originalSelector;
          bare = removeFirst (\<lambda>c. c = CHR ''#'' \<or> c = CHR ''.'') originalSelector
      in (if take 1 originalSelector = ''#''
          then [''[id=\"'' @ rest @ ''\"]'', ''[id*=\"'' @ rest @ ''\"]'',
                ''[data-testid=\"'' @ rest @ ''\"]'', ''[data-cy=\"'' @ rest @ ''\"]'']
          else [])
         @ (if take 1 originalSelector = ''.''
            then [''[class*=\"'' @ rest @ ''\"]'', ''[data-testid*=\"'' @ rest @ ''\"]'',
                  ''[data-cy*=\"'' @ rest @ ''\"]'']
            else [])
         @ map (\<lambda>attr. ''['' @ attr @ ''*=\"'' @ bare @ ''\"]'') testAttributes
         @ ['':contains(\"'' @ bare @ ''\")''])"

datatype 'o Got = CyGetWith string 'o | ThrownWith string

definition commandFailureMessage :: "int \<Rightarrow> string \<Rightarrow> string" where
  "commandFailureMessage retries selector =
     ''Auto-healing failed: Element not found with selector \"'' @ selector
     @ ''\" after '' @ showInt retries @ '' attempts''"

function tryGet ::
  "int \<Rightarrow> Host \<Rightarrow> string \<Rightarrow> 'o \<Rightarrow> nat \<Rightarrow> Command list \<Rightarrow> 'o Got \<times> nat \<times> Command list" where
  "tryGet retries host selector options tried q =
     (if findCount host (tried + 1) selector > 0
      then (CyGetWith selector options, tried + 1, q)
      else if int (tried + 1) \<le> retries
      then (case trySelectors (findCount host (tried + 1))
                   (generateAlternativeSelectors selector) of
              Some alternative \<Rightarrow>
                (CyGetWith alternative options, tried + 1,
                 q @ [CyLogAttempt (tried + 1) selector, CyLogFound alternative,
                      TaskUpdateLocator selector alternative (specRelative host)])
            | None \<Rightarrow>
                tryGet retries host selector options (tried + 1)
                  (q @ [CyLogAttempt (tried + 1) selector, Wait 1000]))
      else (ThrownWith (commandFailureMessage retries selector), tried + 1, q))"
  by pat_completeness auto
termination
  by (relation "measure (\<lambda>(retries, host, selector, options, tried, q).
                   nat (retries - int tried))") auto

declare tryGet.simps [simp del]

text \<open>
  The configuration is \<open>Cypress.env('autoHealing')\<close>, which may be undefined;
  \<open>maxRetries || 3\<close> replaces a zero by 3.
\<close>

definition getWithHealing ::
  "AutoHealingConfig option \<Rightarrow> Host \<Rightarrow> string \<Rightarrow> 'o \<Rightarrow> Command list
   \<Rightarrow> 'o Got \<times> nat \<times> Command list" where
  "getWithHealing autoHealingConfig host selector options q =
     (case autoHealingConfig of
        None \<Rightarrow> (CyGetWith selector options, 0, q)
      | Some config \<Rightarrow>
          if \<not> enabled config then (CyGetWith selector options, 0, q)
          else tryGet (if maxRetries config = 0 then 3 else maxRetries config)
                 host selector options 0 q)"


section \<open>Visual comparison\<close>

record PNG =
  width :: nat
  height :: nat
  pixels :: "nat list"

text \<open>The image files, by path; a path that holds no readable image maps to \<open>None\<close>.\<close>

type_synonym Files = "string \<Rightarrow> PNG option"

record VisualTestingConfig =
  visualEnabled :: bool
  threshold :: real
  baselineDir :: string
  diffDir :: string
  actualDir :: string

text \<open>
  What the task \<open>compareImages\<close> takes from the Node side: \<open>pixelmatch\<close> (the count of
  differing pixels and the diff image data, or the message of the error it throws), the
  message of the error a failed read throws, the message of the error a write to a path
  throws (if it does), and \<open>path.join\<close> and \<open>path.basename\<close>.
\<close>

record Node =
  pixelmatch :: "nat list \<Rightarrow> nat list \<Rightarrow> nat \<Rightarrow> nat \<Rightarrow> real \<Rightarrow> string + (nat \<times> nat list)"
  readError :: "string \<Rightarrow> string"
  writeError :: "string \<Rightarrow> string option"
  pathJoin :: "string \<Rightarrow> string \<Rightarrow> string"
  pathBasename :: "string \<Rightarrow> string \<Rightarrow> string"

text \<open>
  A \<open>VisualComparisonResult\<close>: either \<open>passed\<close>, \<open>diffPixels\<close> and an optional \<open>diffPath\<close>,
  or only \<open>error\<close>.
\<close>

datatype VisualComparisonResult =
    Compared bool nat "string option"
  | CompareError string

definition compareImages ::
  "Node \<Rightarrow> VisualTestingConfig \<Rightarrow> Files \<Rightarrow> string \<Rightarrow> string
   \<Rightarrow> VisualComparisonResult \<times> Files" where
  "compareImages node config files baseline actual =
     (case files baseline of
        None \<Rightarrow> (CompareError (readError node baseline), files)
      | Some baselineImage \<Rightarrow>
     (case files actual of
        None \<Rightarrow> (CompareError (readError node actual), files)
      | Some actualImage \<Rightarrow>
     (case pixelmatch node (pixels baselineImage) (pixels actualImage)
             (width baselineImage) (height baselineImage) (threshold config) of
        Inl message \<Rightarrow> (CompareError message, files)
      | Inr (numDiffPixels, diffData) \<Rightarrow>
          (let diffPath = pathJoin node (diffDir config)
                            (pathBasename node actual ''.png'' @ ''-diff.png'')
           in case writeError node diffPath of
                Some message \<Rightarrow> (CompareError message, files)
              | None \<Rightarrow>
                  (Compared (numDiffPixels = 0) numDiffPixels (Some diffPath),
                   files(diffPath \<mapsto> \<lparr> width = width baselineImage,
                                        height = height baselineImage,
                                        pixels = diffData \<rparr>))))))"

text \<open>
  The command \<open>compareSnapshot\<close>. Its outcome names the path taken: the three that
  return (with what they log) and the throw.
\<close>

datatype SnapshotOutcome =
    VisualDisabled
  | BaselineNotFound
  | ComparisonPassed
  | DifferenceLogged "nat option"
  | SnapshotThrown string

text \<open>The callback that receives the result of the task \<open>compareImages\<close>.\<close>

fun checkComparison ::
  "VisualTestingConfig \<Rightarrow> string \<Rightarrow> VisualComparisonResult \<Rightarrow> SnapshotOutcome" where
  "checkComparison config snapshot (CompareError message) =
     (if message \<noteq> [] then SnapshotThrown (''Visual comparison failed: '' @ message)
      else DifferenceLogged None)"
| "checkComparison config snapshot (Compared passed diffPixels diffPath) =
     (if \<not> passed
      then (if real diffPixels > threshold config * 1000
            then SnapshotThrown (''Visual regression detected in '' @ snapshot)
            else DifferenceLogged (Some diffPixels))
      else ComparisonPassed)"

text \<open>
  \<open>screenshot\<close> is the image \<open>cy.screenshot\<close> takes; \<open>cy.readFile\<close> of the baseline is read
  as the code reads it, a missing file giving a falsy value.
\<close>

definition compareSnapshot ::
  "Node \<Rightarrow> VisualTestingConfig option \<Rightarrow> PNG \<Rightarrow> Files \<Rightarrow> string \<Rightarrow> SnapshotOutcome \<times> Files" where
  "compareSnapshot node visualTesting screenshot files snapshot =
     (case visualTesting of
        None \<Rightarrow> (VisualDisabled, files)
      | Some config \<Rightarrow>
          if \<not> visualEnabled config then (VisualDisabled, files)
          else (let actualPath = ''cypress/screenshots/actual/'' @ snapshot @ ''.png'';
                    baselinePath = ''cypress/screenshots/baseline/'' @ snapshot @ ''.png'';
                    files1 = files(actualPath \<mapsto> screenshot)
                in case files1 baselinePath of
                     None \<Rightarrow> (BaselineNotFound, files1)
                   | Some baselineImage \<Rightarrow>
                       (case compareImages node config files1 baselinePath actualPath of
                          (result, files2) \<Rightarrow> (checkComparison config snapshot result, files2))))"

text \<open>The class \<open>VisualTesting\<close>: its results and what it logs and attaches.\<close>

datatype LogLevel = Info | Warn | Err

datatype TestLog =
    NoBaselineFound string
  | ComparisonPassedLog string
  | ComparisonFailedLog string "nat option" LogLevel
  | DiffAttached string string
  | DiffSaved string

record VisualTesting =
  testResults :: "VisualComparisonResult list"
  testLogs :: "TestLog list"

text \<open>The two options \<open>performImageComparison\<close> reads.\<close>

record VisualComparisonOptions =
  thresholdOption :: "real option"
  failOnDifference :: "bool option"

text \<open>
  The task table of \<open>setupNodeEvents\<close>: the names \<open>cy.task\<close> finds a handler for. A
  \<open>cy.task\<close> of any other name fails the command, and with it the test.
\<close>

definition registeredTasks :: "string list" where
  "registeredTasks = [''writeAllureResults'', ''log'', ''updateLocator'', ''compareImages'']"

definition taskRegistered :: "string \<Rightarrow> bool" where
  "taskRegistered task = (task \<in> set registeredTasks)"

fun logComparisonResult :: "string \<Rightarrow> VisualComparisonResult \<Rightarrow> TestLog" where
  "logComparisonResult snapshot (Compared passed diffPixels diffPath) =
     (if passed then ComparisonPassedLog snapshot
      else ComparisonFailedLog snapshot (Some diffPixels) (if diffPixels > 100 then Err else Warn))"
| "logComparisonResult snapshot (CompareError message) =
     ComparisonFailedLog snapshot None Warn"

fun attachDiffToReport :: "string \<Rightarrow> VisualComparisonResult \<Rightarrow> TestLog list" where
  "attachDiffToReport snapshot (Compared passed diffPixels (Some diffPath)) =
     (if diffPath \<noteq> [] then [DiffAttached snapshot diffPath, DiffSaved diffPath] else [])"
| "attachDiffToReport snapshot result = []"

fun resultPassed :: "VisualComparisonResult \<Rightarrow> bool" where
  "resultPassed (Compared passed diffPixels diffPath) = passed"
| "resultPassed (CompareError message) = False"

datatype TaskFailure = TaskFailed string

text \<open>
  \<open>performImageComparison\<close>. Without a baseline it logs, calls the task \<open>copyFile\<close> and, in
  the callback of that task, returns the passing result; with a baseline it calls the task
  \<open>compareImages\<close> and records the result. Each task runs only if the table registers it.
\<close>

definition performImageComparison ::
  "Node \<Rightarrow> VisualTestingConfig \<Rightarrow> VisualComparisonOptions \<Rightarrow> string \<Rightarrow> string \<Rightarrow> string
   \<Rightarrow> Files \<Rightarrow> VisualTesting
   \<Rightarrow> (TaskFailure + VisualComparisonResult) \<times> Files \<times> VisualTesting" where
  "performImageComparison node config options snapshot baselinePath actualPath files vt =
     (case files baselinePath of
        None \<Rightarrow>
          (if taskRegistered ''copyFile''
           then (Inr (Compared True 0 None), files,
                 vt\<lparr>testLogs := testLogs vt @ [NoBaselineFound snapshot]\<rparr>)
           else (Inl (TaskFailed ''copyFile''), files,
                 vt\<lparr>testLogs := testLogs vt @ [NoBaselineFound snapshot]\<rparr>))
      | Some baselineImage \<Rightarrow>
          (if taskRegistered ''compareImages''
           then (case compareImages node config files baselinePath actualPath of
                   (result, files1) \<Rightarrow>
                     (Inr result, files1,
                      vt\<lparr>testResults := testResults vt @ [result],
                         testLogs := testLogs vt @ [logComparisonResult snapshot result]
                           @ (if \<not> resultPassed result \<and> failOnDifference options \<noteq> Some False
                              then attachDiffToReport snapshot result else [])\<rparr>))
           else (Inl (TaskFailed ''compareImages''), files, vt)))"


section \<open>Vocabulary of the properties\<close>

text \<open>The four attribute operators of the attribute strategy.\<close>

definition operators :: "string list" where
  "operators = [''='', ''*='', ''^='', ''$='']"

text \<open>A configuration to run the definitions on.\<close>

definition exampleConfig :: "Sensitivity \<Rightarrow> int \<Rightarrow> AutoHealingConfig" where
  "exampleConfig level n =
     \<lparr> enabled = True, sensitivity = level, maxRetries = n,
       reportPath = ''reports/auto-healing.json'' \<rparr>"

text \<open>
  The strategies the sensitivity permits, in the specification's words: the strategies
  generated for the selector and the hint whose priority is at most the ceiling of the
  sensitivity, 2 for low, 4 for medium and 6 for high.
\<close>

definition sensitivityCeiling :: "Sensitivity \<Rightarrow> int" where
  "sensitivityCeiling level = (case level of low \<Rightarrow> 2 | medium \<Rightarrow> 4 | high \<Rightarrow> 6)"

definition generatedStrategies ::
  "AutoHealingConfig \<Rightarrow> string \<Rightarrow> string option \<Rightarrow> HealingStrategy list" where
  "generatedStrategies config originalSelector elementType =
     [getAttributeStrategy originalSelector]
     @ (if truthy elementType then [getSemanticStrategy (the elementType)] else [])
     @ [getTextStrategy originalSelector,
        getStructuralStrategy config originalSelector,
        getRoleStrategy elementType,
        getFuzzyMatchingStrategy originalSelector]"

definition permittedStrategies ::
  "AutoHealingConfig \<Rightarrow> string \<Rightarrow> string option \<Rightarrow> HealingStrategy list" where
  "permittedStrategies config originalSelector elementType =
     filter (\<lambda>strategy. priority strategy \<le> sensitivityCeiling (sensitivity config))
       (generatedStrategies config originalSelector elementType)"

text \<open>The waits among the issued commands, in order.\<close>

fun waitsOf :: "Command list \<Rightarrow> real list" where
  "waitsOf [] = []"
| "waitsOf (Wait ms # rest) = ms # waitsOf rest"
| "waitsOf (c # rest) = waitsOf rest"

text \<open>
  Every candidate of the strategies with its key: the priority of its strategy and its
  index within the strategy.
\<close>

fun keyedFrom :: "int \<Rightarrow> nat \<Rightarrow> string list \<Rightarrow> (int \<times> nat \<times> string) list" where
  "keyedFrom p i [] = []"
| "keyedFrom p i (selector # rest) = (p, i, selector) # keyedFrom p (Suc i) rest"

definition keyedCandidates :: "HealingStrategy list \<Rightarrow> (int \<times> nat \<times> string) list" where
  "keyedCandidates strategies =
     concat (map (\<lambda>strategy. keyedFrom (priority strategy) 0 (selectors strategy)) strategies)"

text \<open>The lexicographic order of the keys.\<close>

definition earlier :: "int \<times> nat \<times> string \<Rightarrow> int \<times> nat \<times> string \<Rightarrow> bool" where
  "earlier a b = (fst a < fst b \<or> (fst a = fst b \<and> fst (snd a) < fst (snd b)))"

text \<open>
  \<open>selector\<close> is the first match: it is a candidate that finds an element, and every
  candidate with an earlier key finds none.
\<close>

definition firstMatch :: "(string \<Rightarrow> nat) \<Rightarrow> (int \<times> nat \<times> string) list \<Rightarrow> string \<Rightarrow> bool" where
  "firstMatch body candidates selector =
     (\<exists>a \<in> set candidates. snd (snd a) = selector \<and> body selector > 0
        \<and> (\<forall>b \<in> set candidates. earlier b a \<longrightarrow> body (snd (snd b)) = 0))"

text \<open>At attempt \<open>k\<close> neither the original selector nor any candidate finds an element.\<close>

definition noMatchAt ::
  "AutoHealingConfig \<Rightarrow> Host \<Rightarrow> string \<Rightarrow> string option \<Rightarrow> nat \<Rightarrow> bool" where
  "noMatchAt config host originalSelector elementType k =
     (findCount host k originalSelector = 0
      \<and> (\<forall>strategy \<in> set (getHealingStrategies config originalSelector elementType).
           \<forall>selector \<in> set (selectors strategy). findCount host k selector = 0))"

text \<open>The record \<open>findElement\<close> logs when all attempts have failed.\<close>

definition failedEntry :: "Host \<Rightarrow> string \<Rightarrow> string option \<Rightarrow> HealingLog" where
  "failedEntry host originalSelector elementType =
     \<lparr> timestamp = isoNow host, testFile = specRelative host,
       oldSelector = originalSelector, newSelector = [],
       action = healing_failed, elementTypeLogged = orUnknown elementType \<rparr>"

text \<open>Hosts and a session to run the definitions on.\<close>

definition emptyHost :: Host where
  "emptyHost = \<lparr> findCount = (\<lambda>k selector. 0), random = (\<lambda>k. 1 / 2),
                 isoNow = ''2024-01-01T00:00:00.000Z'', specRelative = ''tests/login.spec.ts'' \<rparr>"

definition hostWith :: "string list \<Rightarrow> Host" where
  "hostWith present = emptyHost\<lparr> findCount := (\<lambda>k selector. if selector \<in> set present then 1 else 0) \<rparr>"

definition emptySession :: Session where
  "emptySession = \<lparr> healingLogs = [], issued = [] \<rparr>"

text \<open>
  A DOM in which a candidate of the attribute strategy, one of the text strategy and one of
  the role strategy match.
\<close>

definition exampleHost :: Host where
  "exampleHost = hostWith [''[data-testid=\"submit-btn\"]'', ''[title=\"submit btn\"]'',
                           ''[role=\"banner\"]'']"

text \<open>
  A Node side, a configuration and image files to run the visual definitions on; this
  \<open>pixelmatch\<close> counts the positions at which the image data differ, and this
  \<open>path.basename\<close> leaves the path as it is.
\<close>

definition exampleNode :: Node where
  "exampleNode =
     \<lparr> pixelmatch = (\<lambda>a b w h t. Inr (length (filter (\<lambda>(x, y). x \<noteq> y) (zip a b)), [])),
       readError = (\<lambda>path. ''ENOENT''),
       writeError = (\<lambda>path. None),
       pathJoin = (\<lambda>dir file. dir @ ''/'' @ file),
       pathBasename = (\<lambda>path ext. path) \<rparr>"

definition exampleVisualConfig :: VisualTestingConfig where
  "exampleVisualConfig =
     \<lparr> visualEnabled = True, threshold = 1 / 10, baselineDir = ''baseline'', diffDir = ''diff'',
       actualDir = ''actual'' \<rparr>"

definition exampleStore :: Files where
  "exampleStore =
     [''cypress/screenshots/baseline/home.png'' \<mapsto> \<lparr> width = 2, height = 1, pixels = [0, 1] \<rparr>,
      ''shot.png'' \<mapsto> \<lparr> width = 2, height = 1, pixels = [0, 2] \<rparr>]"

text \<open>
  A plain DOM query, in the specification's words: \<open>cy.get\<close> of the selector as given, no
  attempt of the resolver, nothing logged and no command issued.
\<close>

definition plainQuery :: "string \<Rightarrow> Session \<Rightarrow> Outcome \<times> nat \<times> Session" where
  "plainQuery selector s = (CyGet selector, 0, s)"

definition plainQueryWith :: "string \<Rightarrow> 'o \<Rightarrow> Command list \<Rightarrow> 'o Got \<times> nat \<times> Command list" where
  "plainQueryWith selector options q = (CyGetWith selector options, 0, q)"


section \<open>Extracted identifiers are never empty\<close>

lemma captureRun_nonempty: "captureRun m ok s = Some v \<Longrightarrow> v \<noteq> []"
  by (induction s) (auto split: if_splits)

lemma quotedValue_nonempty: "quotedValue closing cs = Some v \<Longrightarrow> v \<noteq> []"
  by (auto simp: quotedValue_def Let_def split: if_splits)

lemma attrMatch_nonempty: "attrMatch s = Some v \<Longrightarrow> v \<noteq> []"
  by (induction s)
    (auto simp: attrAt_def Let_def split: if_splits option.splits dest: quotedValue_nonempty)

lemma containsMatch_nonempty: "containsMatch s = Some v \<Longrightarrow> v \<noteq> []"
  by (induction s)
    (auto simp: containsAt_def split: if_splits option.splits dest: quotedValue_nonempty)

lemma extractIdentifier_nonempty: "extractIdentifier s = Some v \<Longrightarrow> v \<noteq> []"
  unfolding extractIdentifier_def idMatch_def classMatch_def
  by (auto split: option.splits
      dest: captureRun_nonempty attrMatch_nonempty containsMatch_nonempty)


section \<open>The attribute strategy\<close>

text \<open>
  Claim C5, as the code has it. The attribute strategy has priority 1. When an identifier
  is extracted from the original selector its candidates are the seven attributes
  \<open>id\<close>, \<open>name\<close>, \<open>data-testid\<close>, \<open>data-cy\<close>, \<open>data-test\<close>, \<open>class\<close>, \<open>aria-label\<close>, each
  with the four operators \<open>=\<close>, \<open>*=\<close>, \<open>^=\<close>, \<open>$=\<close> in this order: 28 candidates, not 24.
  When no identifier is extracted there are none.
\<close>

theorem attribute_strategy_candidates:
  "selectors (getAttributeStrategy originalSelector) =
     (case extractIdentifier originalSelector of
        None \<Rightarrow> []
      | Some ident \<Rightarrow>
          concat (map (\<lambda>attr. map (\<lambda>operator. ''['' @ attr @ operator @ ''\"'' @ ident @ ''\"]'')
                                   operators) attributes))
   \<and> length (selectors (getAttributeStrategy originalSelector)) =
       (if extractIdentifier originalSelector = None then 0 else 28)
   \<and> priority (getAttributeStrategy originalSelector) = 1"
proof (cases "extractIdentifier originalSelector")
  case None
  then show ?thesis by (simp add: getAttributeStrategy_def)
next
  case (Some ident)
  then have t: "truthy (extractIdentifier originalSelector)"
    using extractIdentifier_nonempty[OF Some] by simp
  show ?thesis
    using Some t
    by (simp add: getAttributeStrategy_def attributeSelectors_def operators_def attributes_def)
qed

text \<open>
  The attribute strategy on a selector with an identifier and on one without.
\<close>

theorem attribute_strategy_candidates_witness:
  "length (selectors (getAttributeStrategy ''#submit-btn'')) = 28
   \<and> length (selectors (getAttributeStrategy ''div > span'')) = 0"
proof -
  have i: "extractIdentifier ''#submit-btn'' = Some ''submit-btn''"
    "extractIdentifier ''div > span'' = None"
    by code_simp+
  have "length (selectors (getAttributeStrategy ''#submit-btn''))
          = (if extractIdentifier ''#submit-btn'' = None then 0 else 28)"
    using attribute_strategy_candidates[of "''#submit-btn''"] by blast
  moreover have "length (selectors (getAttributeStrategy ''div > span''))
          = (if extractIdentifier ''div > span'' = None then 0 else 28)"
    using attribute_strategy_candidates[of "''div > span''"] by blast
  ultimately show ?thesis using i by simp
qed

text \<open>
  Claim C5 as the specification states it fails: the selector \<open>#a\<close> yields the identifier
  \<open>a\<close>, and the attribute strategy does not produce 24 candidates for it.
\<close>

theorem attribute_strategy_24_counterexample:
  "extractIdentifier ''#a'' = Some ''a''
   \<and> length (selectors (getAttributeStrategy ''#a'')) \<noteq> 24"
  by code_simp


section \<open>The sensitivity filter\<close>

lemma priorities_unfiltered:
  "map priority ([getAttributeStrategy originalSelector]
        @ (if truthy elementType then [getSemanticStrategy (the elementType)] else [])
        @ [getTextStrategy originalSelector,
           getStructuralStrategy config originalSelector,
           getRoleStrategy elementType,
           getFuzzyMatchingStrategy originalSelector])
   = (if truthy elementType then [1, 2, 3, 4, 5, 6] else [1, 3, 4, 5, 6])"
  by (simp add: getAttributeStrategy_def getSemanticStrategy_def getTextStrategy_def
      getStructuralStrategy_def getRoleStrategy_def getFuzzyMatchingStrategy_def Let_def)

lemma sorted_wrt_filter_less:
  "sorted_wrt (<) (map f xs) \<Longrightarrow> sorted_wrt (<) (map f (filter P xs))"
  by (induction xs) auto

lemma strict_priorities:
  "sorted_wrt (<) (map priority (getHealingStrategies config originalSelector elementType))"
proof -
  let ?all = "[getAttributeStrategy originalSelector]
        @ (if truthy elementType then [getSemanticStrategy (the elementType)] else [])
        @ [getTextStrategy originalSelector,
           getStructuralStrategy config originalSelector,
           getRoleStrategy elementType,
           getFuzzyMatchingStrategy originalSelector]"
  let ?kept = "filter (\<lambda>strategy. priority strategy \<le> getSensitivityMaxPriority config) ?all"
  have "sorted_wrt (<) (map priority ?all)"
    unfolding priorities_unfiltered by simp
  then have s: "sorted_wrt (<) (map priority ?kept)"
    by (rule sorted_wrt_filter_less)
  then have "sorted (map priority ?kept)"
    by (simp add: strict_sorted_iff)
  then have "sort_key priority ?kept = ?kept"
    by (rule sort_key_id_if_sorted)
  with s show ?thesis
    by (simp add: getHealingStrategies_def filterStrategiesBySensitivity_def)
qed

lemma getHealingStrategies_permitted:
  "getHealingStrategies config originalSelector elementType
   = permittedStrategies config originalSelector elementType"
proof -
  let ?kept = "filter (\<lambda>strategy. priority strategy \<le> getSensitivityMaxPriority config)
                 (generatedStrategies config originalSelector elementType)"
  have "sorted_wrt (<) (map priority (generatedStrategies config originalSelector elementType))"
    unfolding generatedStrategies_def priorities_unfiltered by simp
  then have "sorted_wrt (<) (map priority ?kept)"
    by (rule sorted_wrt_filter_less)
  then have "sorted (map priority ?kept)"
    by (simp add: strict_sorted_iff)
  then have "sort_key priority ?kept = ?kept"
    by (rule sort_key_id_if_sorted)
  moreover have "getSensitivityMaxPriority config = sensitivityCeiling (sensitivity config)"
    by (simp add: getSensitivityMaxPriority_def sensitivityCeiling_def)
  ultimately show ?thesis
    by (simp add: getHealingStrategies_def filterStrategiesBySensitivity_def
        permittedStrategies_def generatedStrategies_def)
qed

text \<open>
  Claim C2. For every selector, element-type hint and sensitivity, every strategy the
  resolver tries has a priority of at most the ceiling of the sensitivity, the strategies
  are in ascending order of priority, and the ceiling is 2 for low, 4 for medium and 6
  for high.
\<close>

theorem strategies_within_ceiling:
  "(\<forall>strategy \<in> set (getHealingStrategies config originalSelector elementType).
      priority strategy \<le> getSensitivityMaxPriority config)
   \<and> sorted (map priority (getHealingStrategies config originalSelector elementType))
   \<and> getSensitivityMaxPriority config =
       (case sensitivity config of low \<Rightarrow> 2 | medium \<Rightarrow> 4 | high \<Rightarrow> 6)"
proof -
  have "sorted (map priority (getHealingStrategies config originalSelector elementType))"
    using strict_priorities[of config originalSelector elementType]
    by (simp add: strict_sorted_iff)
  then show ?thesis
    by (simp add: getHealingStrategies_def filterStrategiesBySensitivity_def
        getSensitivityMaxPriority_def)
qed

theorem strategies_within_ceiling_witness:
  "map priority (getHealingStrategies (exampleConfig low 3) ''#submit-btn'' (Some ''button''))
     = [1, 2]
   \<and> getSensitivityMaxPriority (exampleConfig low 3) = 2"
  using strategies_within_ceiling[of "exampleConfig low 3" "''#submit-btn''" "Some ''button''"]
  by (simp add: exampleConfig_def getHealingStrategies_def filterStrategiesBySensitivity_def
      getSensitivityMaxPriority_def getAttributeStrategy_def getSemanticStrategy_def
      getTextStrategy_def getStructuralStrategy_def getRoleStrategy_def
      getFuzzyMatchingStrategy_def Let_def)


section \<open>What strategy generation depends on\<close>

text \<open>
  Claim C9, as the code has it. Strategy generation is a function of the original
  selector, the element-type hint and the configured sensitivity: two configurations of
  the same sensitivity give the same strategies for the same selector and hint, whatever
  their other settings. It reads no clock, no random number, no DOM and no healing log.
\<close>

theorem strategies_depend_on_sensitivity:
  "sensitivity config = sensitivity config'
   \<Longrightarrow> getHealingStrategies config originalSelector elementType
       = getHealingStrategies config' originalSelector elementType"
  by (simp add: getHealingStrategies_def filterStrategiesBySensitivity_def
      getSensitivityMaxPriority_def getStructuralStrategy_def)

theorem strategies_depend_on_sensitivity_witness:
  "sensitivity (exampleConfig medium 3) = sensitivity ((exampleConfig medium 7)\<lparr>enabled := False\<rparr>)
   \<and> getHealingStrategies (exampleConfig medium 3) ''#nav-menu'' (Some ''link'')
       = getHealingStrategies ((exampleConfig medium 7)\<lparr>enabled := False\<rparr>) ''#nav-menu''
           (Some ''link'')"
  using strategies_depend_on_sensitivity[of "exampleConfig medium 3"
      "(exampleConfig medium 7)\<lparr>enabled := False\<rparr>" "''#nav-menu''" "Some ''link''"]
  by (simp add: exampleConfig_def)

text \<open>
  Claim C9 as the specification states it fails: for the same selector \<open>#a\<close> and no hint,
  the strategies under medium sensitivity differ from those under high sensitivity.
\<close>

theorem strategies_of_selector_and_hint_counterexample:
  "getHealingStrategies (exampleConfig medium 3) ''#a'' None
   \<noteq> getHealingStrategies (exampleConfig high 3) ''#a'' None"
  by code_simp

section \<open>Exhausting the attempts\<close>

lemma waitsOf_append: "waitsOf (xs @ ys) = waitsOf xs @ waitsOf ys"
  by (induction xs rule: waitsOf.induct) auto

lemma trySelectors_None: "(trySelectors body sels = None) = (\<forall>x \<in> set sels. body x = 0)"
  by (induction sels) auto

lemma trySelectors_Some: "trySelectors body sels = Some c \<Longrightarrow> c \<in> set sels \<and> body c > 0"
  by (induction sels) (auto split: if_splits)

lemma tryStrategies_None:
  "(tryStrategies body strategies = None)
   = (\<forall>strategy \<in> set strategies. \<forall>x \<in> set (selectors strategy). body x = 0)"
  by (induction strategies)
    (auto simp: trySelectors_None split: option.splits dest: trySelectors_Some)

lemma issue_simps:
  "healingLogs (issue c s) = healingLogs s"
  "issued (issue c s) = issued s @ [c]"
  by (simp_all add: issue_def)

lemma allAttemptsFailed_simps:
  "fst (allAttemptsFailed config host orig et n s) = Thrown (failureMessage config orig)"
  "fst (snd (allAttemptsFailed config host orig et n s)) = n"
  "healingLogs (snd (snd (allAttemptsFailed config host orig et n s)))
     = healingLogs s @ [failedEntry host orig et]"
  "waitsOf (issued (snd (snd (allAttemptsFailed config host orig et n s)))) = waitsOf (issued s)"
  by (simp_all add: allAttemptsFailed_def logHealingAction_def failedEntry_def issue_def
      waitsOf_append)

lemma attemptFind_exhausted:
  assumes "\<forall>k. tried < k \<and> (int k \<le> maxRetries config \<or> k = tried + 1)
             \<longrightarrow> noMatchAt config host orig et k"
  shows "fst (attemptFind config host orig et tried s) = Thrown (failureMessage config orig)
       \<and> fst (snd (attemptFind config host orig et tried s))
           = max (tried + 1) (nat (maxRetries config))
       \<and> healingLogs (snd (snd (attemptFind config host orig et tried s)))
           = healingLogs s @ [failedEntry host orig et]
       \<and> waitsOf (issued (snd (snd (attemptFind config host orig et tried s))))
           = waitsOf (issued s)
             @ map (\<lambda>k. getRetryDelay (random host k) k) [tried + 1 ..< nat (maxRetries config)]"
  using assms
proof (induction config host orig et tried s rule: attemptFind.induct)
  case (1 config host orig et tried s)
  have nm: "noMatchAt config host orig et (tried + 1)"
    using "1.prems" by simp
  then have c0: "findCount host (tried + 1) orig = 0"
    by (simp add: noMatchAt_def)
  have ts: "tryStrategies (findCount host (tried + 1)) (getHealingStrategies config orig et) = None"
    using nm by (simp add: tryStrategies_None noMatchAt_def)
  show ?case
  proof (cases "int (tried + 1) < maxRetries config")
    case True
    have more: "\<forall>k. tried + 1 < k \<and> (int k \<le> maxRetries config \<or> k = tried + 1 + 1)
                  \<longrightarrow> noMatchAt config host orig et k"
      using "1.prems" True by auto
    have le: "int (tried + 1) \<le> maxRetries config"
      using True by simp
    let ?s1 = "issue (Wait (getRetryDelay (random host (tried + 1)) (tried + 1)))
                 (issue (TaskLogAttempt (tried + 1) orig) s)"
    have step: "attemptFind config host orig et tried s
                = attemptFind config host orig et (tried + 1) ?s1"
      using c0 ts True le by (subst attemptFind.simps) simp
    have ih: "fst (attemptFind config host orig et (tried + 1) ?s1)
                = Thrown (failureMessage config orig)
       \<and> fst (snd (attemptFind config host orig et (tried + 1) ?s1))
           = max (tried + 1 + 1) (nat (maxRetries config))
       \<and> healingLogs (snd (snd (attemptFind config host orig et (tried + 1) ?s1)))
           = healingLogs ?s1 @ [failedEntry host orig et]
       \<and> waitsOf (issued (snd (snd (attemptFind config host orig et (tried + 1) ?s1))))
           = waitsOf (issued ?s1)
             @ map (\<lambda>k. getRetryDelay (random host k) k)
                 [tried + 1 + 1 ..< nat (maxRetries config)]"
      using "1.IH"[OF _ le ts True more] c0 by simp
    have upt: "[tried + 1 ..< nat (maxRetries config)]
               = (tried + 1) # [tried + 1 + 1 ..< nat (maxRetries config)]"
      using True by (simp add: upt_conv_Cons)
    have mx: "max (tried + 1 + 1) (nat (maxRetries config)) = max (tried + 1) (nat (maxRetries config))"
      using True by simp
    show ?thesis
      unfolding step upt using ih mx
      by (simp add: issue_simps waitsOf_append)
  next
    case False
    then have none: "[tried + 1 ..< nat (maxRetries config)] = []"
      by simp
    have mx: "max (tried + 1) (nat (maxRetries config)) = tried + 1"
      using False by simp
    have step: "attemptFind config host orig et tried s
                = (if int (tried + 1) \<le> maxRetries config
                   then allAttemptsFailed config host orig et (tried + 1)
                          (issue (TaskLogAttempt (tried + 1) orig) s)
                   else allAttemptsFailed config host orig et (tried + 1) s)"
      using c0 ts False by (subst attemptFind.simps) simp
    show ?thesis
      unfolding step none mx
      by (simp add: allAttemptsFailed_simps issue_simps waitsOf_append)
  qed
qed


text \<open>
  Claim C6. When healing is enabled and, at every attempt made, neither the original
  selector nor any candidate finds an element, \<open>findElement\<close> throws and returns no
  element; before the throw it appends exactly one record to the healing log, of action
  \<open>healing_failed\<close> for the original selector; and the message of the error holds the
  original selector and the configured number of attempts.
\<close>

theorem exhaustion_logs_one_failure:
  assumes "enabled config"
    and "\<forall>k. 0 < k \<and> (int k \<le> maxRetries config \<or> k = 1)
           \<longrightarrow> noMatchAt config host originalSelector elementType k"
  shows "fst (findElement config host originalSelector elementType s)
           = Thrown (failureMessage config originalSelector)
       \<and> healingLogs (snd (snd (findElement config host originalSelector elementType s)))
           = healingLogs s @ [failedEntry host originalSelector elementType]
       \<and> action (failedEntry host originalSelector elementType) = healing_failed
       \<and> oldSelector (failedEntry host originalSelector elementType) = originalSelector
       \<and> failureMessage config originalSelector
           = ''Auto-healing failed: Element not found with selector \"'' @ originalSelector
             @ ''\" after '' @ showInt (maxRetries config)
             @ '' attempts using all available strategies''"
proof -
  have "\<forall>k. 0 < k \<and> (int k \<le> maxRetries config \<or> k = 0 + 1)
           \<longrightarrow> noMatchAt config host originalSelector elementType k"
    using assms(2) by simp
  from attemptFind_exhausted[OF this, of s] show ?thesis
    using assms(1) by (simp add: findElement_def failedEntry_def failureMessage_def)
qed

theorem exhaustion_logs_one_failure_witness:
  "enabled (exampleConfig medium 3)
   \<and> fst (findElement (exampleConfig medium 3) emptyHost ''#missing'' None emptySession)
       = Thrown (''Auto-healing failed: Element not found with selector \"#missing\" after 3 ''
                 @ ''attempts using all available strategies'')
   \<and> map action (healingLogs (snd (snd
         (findElement (exampleConfig medium 3) emptyHost ''#missing'' None emptySession))))
       = [healing_failed]"
proof -
  have e: "enabled (exampleConfig medium 3)"
    by (simp add: exampleConfig_def)
  have h: "\<forall>k. 0 < k \<and> (int k \<le> maxRetries (exampleConfig medium 3) \<or> k = 1)
             \<longrightarrow> noMatchAt (exampleConfig medium 3) emptyHost ''#missing'' None k"
    by (simp add: noMatchAt_def emptyHost_def)
  have three: "showInt (maxRetries (exampleConfig medium 3)) = ''3''"
    by (simp add: exampleConfig_def showInt_def showNat.simps digitOf_def digitChars_def)
  from exhaustion_logs_one_failure[OF e h, of emptySession] show ?thesis
    using e three by (simp add: emptySession_def)
qed

lemma getRetryDelay_first: "getRetryDelay r (Suc 0) = 1000 + r * 100"
  by (simp add: getRetryDelay_def Let_def)

lemma upt_one_two: "[Suc 0 ..< 2] = [Suc 0]"
  by (simp add: numeral_2_eq_2)

text \<open>
  Claim C3, as the code has it. With \<open>maxRetries = 2\<close>, when every probe answers and
  none finds an element at either attempt, \<open>findElement\<close> waits exactly once, between the
  two attempts, for 1000 ms plus a jitter of at most 10 percent, and then throws the
  element-not-found error: the wait is guarded by \<open>attempts < maxRetries\<close>, so none follows
  the last attempt.
\<close>

theorem two_attempts_one_wait:
  assumes "enabled config" and "maxRetries config = 2"
    and "noMatchAt config host originalSelector elementType 1"
    and "noMatchAt config host originalSelector elementType 2"
    and "0 \<le> random host 1" and "random host 1 < 1"
  shows "waitsOf (issued (snd (snd (findElement config host originalSelector elementType s))))
           = waitsOf (issued s) @ [getRetryDelay (random host 1) 1]
       \<and> 1000 \<le> getRetryDelay (random host 1) 1
       \<and> getRetryDelay (random host 1) 1 \<le> 1100
       \<and> fst (snd (findElement config host originalSelector elementType s)) = 2
       \<and> fst (findElement config host originalSelector elementType s)
           = Thrown (failureMessage config originalSelector)"
proof -
  have "\<forall>k. 0 < k \<and> (int k \<le> maxRetries config \<or> k = 0 + 1)
           \<longrightarrow> noMatchAt config host originalSelector elementType k"
  proof (intro allI impI)
    fix k :: nat
    assume "0 < k \<and> (int k \<le> maxRetries config \<or> k = 0 + 1)"
    then have "k = 1 \<or> k = 2"
      using assms(2) by auto
    then show "noMatchAt config host originalSelector elementType k"
      using assms(3,4) by auto
  qed
  from attemptFind_exhausted[OF this, of s] show ?thesis
    using assms(1,2,5,6) by (simp add: findElement_def getRetryDelay_first upt_one_two)
qed

theorem two_attempts_one_wait_witness:
  "waitsOf (issued (snd (snd
       (findElement (exampleConfig medium 2) emptyHost ''#missing'' None emptySession))))
     = [1050]
   \<and> fst (findElement (exampleConfig medium 2) emptyHost ''#missing'' None emptySession)
       = Thrown (failureMessage (exampleConfig medium 2) ''#missing'')"
proof -
  have e: "enabled (exampleConfig medium 2)" and m: "maxRetries (exampleConfig medium 2) = 2"
    by (simp_all add: exampleConfig_def)
  have n1: "noMatchAt (exampleConfig medium 2) emptyHost ''#missing'' None 1"
    and n2: "noMatchAt (exampleConfig medium 2) emptyHost ''#missing'' None 2"
    by (simp_all add: noMatchAt_def emptyHost_def)
  have r: "0 \<le> random emptyHost 1" "random emptyHost 1 < 1"
    by (simp_all add: emptyHost_def)
  have d: "getRetryDelay (random emptyHost 1) 1 = 1050"
    by (simp add: getRetryDelay_first emptyHost_def)
  from two_attempts_one_wait[OF e m n1 n2 r, of emptySession] show ?thesis
    using d by (simp add: emptySession_def)
qed

text \<open>
  Claim C3 as the specification states it fails: with \<open>maxRetries = 2\<close> and a DOM in which
  nothing ever matches, the number of waits is not 2.
\<close>

theorem two_attempts_two_waits_counterexample:
  "maxRetries (exampleConfig medium 2) = 2
   \<and> noMatchAt (exampleConfig medium 2) emptyHost ''#missing'' None 1
   \<and> noMatchAt (exampleConfig medium 2) emptyHost ''#missing'' None 2
   \<and> length (waitsOf (issued (snd (snd
        (findElement (exampleConfig medium 2) emptyHost ''#missing'' None emptySession)))))
      \<noteq> 2"
proof -
  have n: "\<forall>k. 0 < k \<and> (int k \<le> maxRetries (exampleConfig medium 2) \<or> k = 0 + 1)
             \<longrightarrow> noMatchAt (exampleConfig medium 2) emptyHost ''#missing'' None k"
    by (simp add: noMatchAt_def emptyHost_def)
  have e: "enabled (exampleConfig medium 2)" and m: "maxRetries (exampleConfig medium 2) = 2"
    by (simp_all add: exampleConfig_def)
  have "noMatchAt (exampleConfig medium 2) emptyHost ''#missing'' None 1"
    and "noMatchAt (exampleConfig medium 2) emptyHost ''#missing'' None 2"
    by (simp_all add: noMatchAt_def emptyHost_def)
  then show ?thesis
    using attemptFind_exhausted[OF n, of emptySession] e m
    by (simp add: findElement_def emptySession_def upt_one_two)
qed

section \<open>The fast path and the disabled resolver\<close>

text \<open>
  Claim C4. When the original selector finds an element at the first probe,
  \<open>findElement\<close> returns \<open>cy.get\<close> of that selector after that one probe (after none when
  healing is disabled), whatever the hint and the configuration are: the session is
  unchanged, so no record is appended to the healing log and no command is issued, neither
  the log line that precedes strategy generation nor a wait.
\<close>

theorem fast_path:
  "0 < findCount host 1 originalSelector
   \<Longrightarrow> findElement config host originalSelector elementType s
       = (CyGet originalSelector, (if enabled config then 1 else 0), s)"
  by (simp add: findElement_def attemptFind.simps)

theorem fast_path_witness:
  "0 < findCount (hostWith [''#submit-btn'']) 1 ''#submit-btn''
   \<and> findElement (exampleConfig high 3) (hostWith [''#submit-btn'']) ''#submit-btn''
        (Some ''button'') emptySession
      = (CyGet ''#submit-btn'', 1, emptySession)"
proof -
  have m: "0 < findCount (hostWith [''#submit-btn'']) 1 ''#submit-btn''"
    by (simp add: hostWith_def)
  have e: "enabled (exampleConfig high 3)"
    by (simp add: exampleConfig_def)
  from fast_path[OF m] m e show ?thesis by simp
qed

text \<open>
  Claim C10. With \<open>enabled\<close> set to false, both \<open>findElement\<close> and the command
  \<open>getWithHealing\<close> are the plain query of the original selector, for every host, hint
  and state: no probe, no strategy, no wait, no log record, whether or not the selector
  matches.
\<close>

theorem disabled_is_plain_query:
  "\<not> enabled config
   \<Longrightarrow> findElement config host selector elementType s = plainQuery selector s
     \<and> getWithHealing (Some config) host selector options q = plainQueryWith selector options q"
  by (simp add: findElement_def getWithHealing_def plainQuery_def plainQueryWith_def)

theorem disabled_is_plain_query_witness:
  "findElement ((exampleConfig high 3)\<lparr>enabled := False\<rparr>) emptyHost ''#missing'' (Some ''button'')
       emptySession
     = (CyGet ''#missing'', 0, emptySession)
   \<and> getWithHealing (Some ((exampleConfig high 3)\<lparr>enabled := False\<rparr>)) emptyHost ''#missing''
       () []
     = (CyGetWith ''#missing'' (), 0, [])"
proof -
  have d: "\<not> enabled ((exampleConfig high 3)\<lparr>enabled := False\<rparr>)"
    by simp
  from disabled_is_plain_query[OF d] show ?thesis
    by (simp add: plainQuery_def plainQueryWith_def)
qed


section \<open>First match wins\<close>

lemma keyedFrom_props:
  "a \<in> set (keyedFrom p i sels) \<Longrightarrow> fst a = p \<and> i \<le> fst (snd a) \<and> snd (snd a) \<in> set sels"
  by (induction sels arbitrary: i) (auto dest: Suc_leD)

lemma keyedCandidates_Cons:
  "keyedCandidates (s # ss) = keyedFrom (priority s) 0 (selectors s) @ keyedCandidates ss"
  by (simp add: keyedCandidates_def)

lemma keyedCandidates_origin:
  "a \<in> set (keyedCandidates strategies)
   \<Longrightarrow> \<exists>st \<in> set strategies. fst a = priority st \<and> snd (snd a) \<in> set (selectors st)"
  by (induction strategies) (auto simp: keyedCandidates_Cons keyedCandidates_def dest: keyedFrom_props)

lemma keyedCandidates_later:
  assumes "sorted_wrt (<) (map priority (s # ss))" and "b \<in> set (keyedCandidates ss)"
  shows "priority s < fst b"
proof -
  from keyedCandidates_origin[OF assms(2)] obtain st where
    "st \<in> set ss" "fst b = priority st" by blast
  then show ?thesis using assms(1) by simp
qed

lemma trySelectors_first:
  "trySelectors body sels = Some c
   \<Longrightarrow> \<exists>a \<in> set (keyedFrom p i sels). snd (snd a) = c
         \<and> (\<forall>b \<in> set (keyedFrom p i sels). fst (snd b) < fst (snd a) \<longrightarrow> body (snd (snd b)) = 0)"
proof (induction sels arbitrary: i)
  case Nil
  then show ?case by simp
next
  case (Cons x xs)
  show ?case
  proof (cases "body x > 0")
    case True
    then have "c = x" using Cons.prems by simp
    moreover have "\<forall>b \<in> set (keyedFrom p i (x # xs)). \<not> fst (snd b) < i"
      using keyedFrom_props[of _ p i "x # xs"] by (auto simp: not_less)
    ultimately show ?thesis by auto
  next
    case False
    then have "trySelectors body xs = Some c" using Cons.prems by simp
    from Cons.IH[OF this, of "Suc i"] obtain a where
      a: "a \<in> set (keyedFrom p (Suc i) xs)" "snd (snd a) = c"
        "\<forall>b \<in> set (keyedFrom p (Suc i) xs). fst (snd b) < fst (snd a) \<longrightarrow> body (snd (snd b)) = 0"
      by blast
    then show ?thesis using False by auto
  qed
qed

lemma tryStrategies_firstMatch:
  "sorted_wrt (<) (map priority strategies) \<Longrightarrow> tryStrategies body strategies = Some (st, c)
   \<Longrightarrow> firstMatch body (keyedCandidates strategies) c"
proof (induction strategies)
  case Nil
  then show ?case by simp
next
  case (Cons s ss)
  have later: "\<forall>b \<in> set (keyedCandidates ss). priority s < fst b"
    using keyedCandidates_later[OF Cons.prems(1)] by blast
  show ?case
  proof (cases "trySelectors body (selectors s)")
    case (Some c')
    then have c: "c' = c" using Cons.prems(2) by simp
    from trySelectors_first[OF Some, of "priority s" 0] obtain a where
      a: "a \<in> set (keyedFrom (priority s) 0 (selectors s))" "snd (snd a) = c"
        "\<forall>b \<in> set (keyedFrom (priority s) 0 (selectors s)).
           fst (snd b) < fst (snd a) \<longrightarrow> body (snd (snd b)) = 0"
      unfolding c by blast
    have pa: "fst a = priority s" using keyedFrom_props[OF a(1)] by simp
    have "\<forall>b \<in> set (keyedCandidates (s # ss)). earlier b a \<longrightarrow> body (snd (snd b)) = 0"
    proof (intro ballI impI)
      fix b assume b: "b \<in> set (keyedCandidates (s # ss))" and e: "earlier b a"
      show "body (snd (snd b)) = 0"
      proof (cases "b \<in> set (keyedFrom (priority s) 0 (selectors s))")
        case True
        then have "fst b = priority s" using keyedFrom_props[OF True] by simp
        then have "fst (snd b) < fst (snd a)" using e pa by (simp add: earlier_def)
        then show ?thesis using a(3) True by blast
      next
        case False
        then have "b \<in> set (keyedCandidates ss)" using b by (simp add: keyedCandidates_Cons)
        then have "priority s < fst b" using later by blast
        then show ?thesis using e pa by (simp add: earlier_def)
      qed
    qed
    moreover have "body c > 0" using trySelectors_Some[OF Some] c by simp
    moreover have "a \<in> set (keyedCandidates (s # ss))" using a(1) by (simp add: keyedCandidates_Cons)
    ultimately show ?thesis using a(2) unfolding firstMatch_def by blast
  next
    case None
    then have rest: "tryStrategies body ss = Some (st, c)" using Cons.prems(2) by simp
    have "sorted_wrt (<) (map priority ss)" using Cons.prems(1) by simp
    from Cons.IH[OF this rest] obtain a where
      a: "a \<in> set (keyedCandidates ss)" "snd (snd a) = c" "body c > 0"
        "\<forall>b \<in> set (keyedCandidates ss). earlier b a \<longrightarrow> body (snd (snd b)) = 0"
      unfolding firstMatch_def by blast
    have "\<forall>b \<in> set (keyedFrom (priority s) 0 (selectors s)). body (snd (snd b)) = 0"
      using None keyedFrom_props[of _ "priority s" 0 "selectors s"]
      by (auto simp: trySelectors_None)
    then have "\<forall>b \<in> set (keyedCandidates (s # ss)). earlier b a \<longrightarrow> body (snd (snd b)) = 0"
      using a(4) by (auto simp: keyedCandidates_Cons)
    moreover have "a \<in> set (keyedCandidates (s # ss))" using a(1) by (simp add: keyedCandidates_Cons)
    ultimately show ?thesis using a(2,3) unfolding firstMatch_def by blast
  qed
qed

lemma keyedFrom_index:
  "a \<in> set (keyedFrom p i sels) \<Longrightarrow> b \<in> set (keyedFrom p i sels)
   \<Longrightarrow> fst (snd a) = fst (snd b) \<Longrightarrow> a = b"
proof (induction sels arbitrary: i)
  case Nil
  then show ?case by simp
next
  case (Cons x xs)
  have "\<forall>d \<in> set (keyedFrom p (Suc i) xs). Suc i \<le> fst (snd d)"
    using keyedFrom_props[of _ p "Suc i" xs] by blast
  then show ?case using Cons by fastforce
qed

lemma keyed_key_inj:
  "sorted_wrt (<) (map priority strategies) \<Longrightarrow> a \<in> set (keyedCandidates strategies)
   \<Longrightarrow> b \<in> set (keyedCandidates strategies) \<Longrightarrow> fst a = fst b
   \<Longrightarrow> fst (snd a) = fst (snd b) \<Longrightarrow> a = b"
proof (induction strategies)
  case Nil
  then show ?case by (simp add: keyedCandidates_def)
next
  case (Cons s ss)
  have later: "\<forall>d \<in> set (keyedCandidates ss). priority s < fst d"
    using keyedCandidates_later[OF Cons.prems(1)] by blast
  have here: "\<forall>d \<in> set (keyedFrom (priority s) 0 (selectors s)). fst d = priority s"
    using keyedFrom_props[of _ "priority s" 0 "selectors s"] by blast
  consider (hh) "a \<in> set (keyedFrom (priority s) 0 (selectors s))"
                "b \<in> set (keyedFrom (priority s) 0 (selectors s))"
    | (tt) "a \<in> set (keyedCandidates ss)" "b \<in> set (keyedCandidates ss)"
    | (ht) "a \<in> set (keyedFrom (priority s) 0 (selectors s))" "b \<in> set (keyedCandidates ss)"
    | (th) "a \<in> set (keyedCandidates ss)" "b \<in> set (keyedFrom (priority s) 0 (selectors s))"
    using Cons.prems(2,3) by (auto simp: keyedCandidates_Cons)
  then show ?case
  proof cases
    case hh
    then show ?thesis using keyedFrom_index Cons.prems(5) by blast
  next
    case tt
    then show ?thesis using Cons.IH Cons.prems(1,4,5) by simp
  next
    case ht
    then show ?thesis using later here Cons.prems(4) by force
  next
    case th
    then show ?thesis using later here Cons.prems(4) by force
  qed
qed

lemma firstMatch_unique:
  assumes "sorted_wrt (<) (map priority strategies)"
    and "firstMatch body (keyedCandidates strategies) c"
    and "firstMatch body (keyedCandidates strategies) c'"
  shows "c = c'"
proof -
  from assms(2) obtain a where
    a: "a \<in> set (keyedCandidates strategies)" "snd (snd a) = c" "body c > 0"
      "\<forall>b \<in> set (keyedCandidates strategies). earlier b a \<longrightarrow> body (snd (snd b)) = 0"
    unfolding firstMatch_def by blast
  from assms(3) obtain a' where
    a': "a' \<in> set (keyedCandidates strategies)" "snd (snd a') = c'" "body c' > 0"
      "\<forall>b \<in> set (keyedCandidates strategies). earlier b a' \<longrightarrow> body (snd (snd b)) = 0"
    unfolding firstMatch_def by blast
  have "\<not> earlier a' a" using a(4) a'(1,2,3) by auto
  moreover have "\<not> earlier a a'" using a'(4) a(1,2,3) by auto
  ultimately have "fst a = fst a'" "fst (snd a) = fst (snd a')"
    by (auto simp: earlier_def not_less)
  from keyed_key_inj[OF assms(1) a(1) a'(1) this] show ?thesis
    using a(2) a'(2) by simp
qed

lemma firstMatch_tryStrategies:
  assumes "firstMatch body (keyedCandidates strategies) c"
  shows "tryStrategies body strategies \<noteq> None"
proof -
  from assms obtain a where a: "a \<in> set (keyedCandidates strategies)" "snd (snd a) = c" "body c > 0"
    unfolding firstMatch_def by blast
  from keyedCandidates_origin[OF a(1)] a(2,3) show ?thesis
    by (auto simp: tryStrategies_None)
qed

lemma attemptFind_CyGet:
  "attemptFind config host orig et tried s = (CyGet c, k, s') \<Longrightarrow> findCount host k orig = 0
   \<Longrightarrow> \<exists>st. tryStrategies (findCount host k) (getHealingStrategies config orig et) = Some (st, c)"
proof (induction config host orig et tried s rule: attemptFind.induct)
  case (1 config host orig et tried s)
  show ?case
  proof (cases "findCount host (tried + 1) orig > 0")
    case True
    then have "k = tried + 1"
      using "1.prems"(1) by (subst (asm) attemptFind.simps) simp
    then show ?thesis using True "1.prems"(2) by simp
  next
    case nf: False
    show ?thesis
    proof (cases "int (tried + 1) \<le> maxRetries config")
      case False
      then show ?thesis
        using "1.prems"(1) nf by (subst (asm) attemptFind.simps) (simp add: allAttemptsFailed_def)
    next
      case le: True
      show ?thesis
      proof (cases "tryStrategies (findCount host (tried + 1)) (getHealingStrategies config orig et)")
        case (Some found)
        then show ?thesis
          using "1.prems"(1) nf le
          by (subst (asm) attemptFind.simps) (auto split: prod.splits)
      next
        case None
        show ?thesis
        proof (cases "int (tried + 1) < maxRetries config")
          case True
          have "attemptFind config host orig et (tried + 1)
                  (issue (Wait (getRetryDelay (random host (tried + 1)) (tried + 1)))
                     (issue (TaskLogAttempt (tried + 1) orig) s)) = (CyGet c, k, s')"
            using "1.prems"(1) nf le None True by (subst (asm) attemptFind.simps) simp
          from "1.IH"[OF _ le None True this "1.prems"(2)] nf show ?thesis by simp
        next
          case False
          then show ?thesis
            using "1.prems"(1) nf le None
            by (subst (asm) attemptFind.simps) (simp add: allAttemptsFailed_def)
        qed
      qed
    qed
  qed
qed

lemma first_match_of_tried_strategies:
  assumes "enabled config"
  shows "(findElement config host originalSelector elementType s = (CyGet c, k, s')
            \<and> findCount host k originalSelector = 0
          \<longrightarrow> firstMatch (findCount host k)
                (keyedCandidates (getHealingStrategies config originalSelector elementType)) c)
       \<and> (1 \<le> maxRetries config \<and> findCount host 1 originalSelector = 0
            \<and> firstMatch (findCount host 1)
                (keyedCandidates (getHealingStrategies config originalSelector elementType)) c'
          \<longrightarrow> fst (findElement config host originalSelector elementType s) = CyGet c')"
proof (intro conjI impI)
  assume "findElement config host originalSelector elementType s = (CyGet c, k, s')
            \<and> findCount host k originalSelector = 0"
  then have "attemptFind config host originalSelector elementType 0 s = (CyGet c, k, s')"
    and "findCount host k originalSelector = 0"
    using assms by (simp_all add: findElement_def)
  from attemptFind_CyGet[OF this] obtain st where
    "tryStrategies (findCount host k) (getHealingStrategies config originalSelector elementType)
       = Some (st, c)" by blast
  from tryStrategies_firstMatch[OF strict_priorities this]
  show "firstMatch (findCount host k)
          (keyedCandidates (getHealingStrategies config originalSelector elementType)) c" .
next
  let ?strategies = "getHealingStrategies config originalSelector elementType"
  assume h: "1 \<le> maxRetries config \<and> findCount host 1 originalSelector = 0
            \<and> firstMatch (findCount host 1) (keyedCandidates ?strategies) c'"
  then have "tryStrategies (findCount host 1) ?strategies \<noteq> None"
    using firstMatch_tryStrategies by blast
  then obtain st d where found: "tryStrategies (findCount host 1) ?strategies = Some (st, d)"
    by (cases "tryStrategies (findCount host 1) ?strategies") auto
  from tryStrategies_firstMatch[OF strict_priorities found]
  have "d = c'"
    using firstMatch_unique[OF strict_priorities] h by blast
  then show "fst (findElement config host originalSelector elementType s) = CyGet c'"
    using assms h found by (simp add: findElement_def attemptFind.simps)
qed

text \<open>
  Claim C1. Healing being enabled: whenever \<open>findElement\<close> returns a selector at an
  attempt whose snapshot does not match the original selector, that selector is the first
  match of the snapshot among the candidates of the strategies the sensitivity permits
  (those generated with a priority of at most 2, 4 or 6), in the lexicographic order of
  strategy priority and index within the strategy, so no permitted candidate with an
  earlier key matches and no candidate above the ceiling is returned. And when the
  original selector does not match at the first attempt, at least one attempt is allowed
  and the snapshot has a first match, that first match is the selector returned.
\<close>

theorem resolver_returns_first_match:
  assumes "enabled config"
  shows "(findElement config host originalSelector elementType s = (CyGet c, k, s')
            \<and> findCount host k originalSelector = 0
          \<longrightarrow> firstMatch (findCount host k)
                (keyedCandidates (permittedStrategies config originalSelector elementType)) c)
       \<and> (1 \<le> maxRetries config \<and> findCount host 1 originalSelector = 0
            \<and> firstMatch (findCount host 1)
                (keyedCandidates (permittedStrategies config originalSelector elementType)) c'
          \<longrightarrow> fst (findElement config host originalSelector elementType s) = CyGet c')"
  using first_match_of_tried_strategies[OF assms, unfolded getHealingStrategies_permitted]
  by blast

theorem resolver_returns_first_match_witness:
  "enabled (exampleConfig medium 3)
   \<and> findCount exampleHost 1 ''#submit-btn'' = 0
   \<and> fst (findElement (exampleConfig medium 3) exampleHost ''#submit-btn'' None emptySession)
       = CyGet ''[data-testid=\"submit-btn\"]''
   \<and> firstMatch (findCount exampleHost 1)
        (keyedCandidates (permittedStrategies (exampleConfig medium 3) ''#submit-btn'' None))
        ''[data-testid=\"submit-btn\"]''"
proof -
  let ?run = "findElement (exampleConfig medium 3) exampleHost ''#submit-btn'' None emptySession"
  have e: "enabled (exampleConfig medium 3)" and m: "1 \<le> maxRetries (exampleConfig medium 3)"
    by (simp_all add: exampleConfig_def)
  have z: "findCount exampleHost 1 ''#submit-btn'' = 0"
    by (simp add: exampleHost_def hostWith_def)
  have run: "?run = (CyGet ''[data-testid=\"submit-btn\"]'', 1, snd (snd ?run))"
    by code_simp
  from resolver_returns_first_match[OF e, of exampleHost "''#submit-btn''" None emptySession
      "''[data-testid=\"submit-btn\"]''" 1 "snd (snd ?run)" "''[data-testid=\"submit-btn\"]''"]
  have fm: "firstMatch (findCount exampleHost 1)
        (keyedCandidates (permittedStrategies (exampleConfig medium 3) ''#submit-btn'' None))
        ''[data-testid=\"submit-btn\"]''"
    using run z by blast
  from resolver_returns_first_match[OF e, of exampleHost "''#submit-btn''" None emptySession
      "''[data-testid=\"submit-btn\"]''" 1 "snd (snd ?run)" "''[data-testid=\"submit-btn\"]''"]
  have "fst ?run = CyGet ''[data-testid=\"submit-btn\"]''"
    using fm m z by blast
  then show ?thesis using e z fm by simp
qed


section \<open>Visual comparison and its baseline\<close>

text \<open>
  Claim C7. When both images are read, \<open>pixelmatch\<close> returns a count and the diff image
  is written, the result of \<open>compareImages\<close> carries that count and has \<open>passed\<close> true
  exactly when the count is 0, for every threshold. The command \<open>compareSnapshot\<close> then
  throws only when the count is not 0 and exceeds \<open>threshold * 1000\<close>; a count that is not
  0 and at most \<open>threshold * 1000\<close> is logged and the test goes on, although the result
  is not passed.
\<close>

theorem passed_iff_no_differing_pixel:
  "(files baseline = Some baselineImage \<and> files actual = Some actualImage
      \<and> pixelmatch node (pixels baselineImage) (pixels actualImage) (width baselineImage)
            (height baselineImage) (threshold config) = Inr (numDiffPixels, diffData)
      \<and> writeError node (pathJoin node (diffDir config)
            (pathBasename node actual ''.png'' @ ''-diff.png'')) = None
    \<longrightarrow> fst (compareImages node config files baseline actual)
          = Compared (numDiffPixels = 0) numDiffPixels
              (Some (pathJoin node (diffDir config)
                 (pathBasename node actual ''.png'' @ ''-diff.png''))))
   \<and> (visualEnabled config
      \<and> files (''cypress/screenshots/baseline/'' @ snapshot @ ''.png'') = Some storedImage
      \<and> pixelmatch node (pixels storedImage) (pixels screenshot) (width storedImage)
            (height storedImage) (threshold config) = Inr (differing, diffData')
      \<and> writeError node (pathJoin node (diffDir config)
            (pathBasename node (''cypress/screenshots/actual/'' @ snapshot @ ''.png'') ''.png''
             @ ''-diff.png'')) = None
    \<longrightarrow> fst (compareSnapshot node (Some config) screenshot files snapshot)
          = (if differing = 0 then ComparisonPassed
             else if real differing > threshold config * 1000
             then SnapshotThrown (''Visual regression detected in '' @ snapshot)
             else DifferenceLogged (Some differing)))"
  by (auto simp: compareImages_def compareSnapshot_def Let_def)


theorem passed_iff_no_differing_pixel_witness:
  "fst (compareImages exampleNode exampleVisualConfig exampleStore
          ''cypress/screenshots/baseline/home.png'' ''shot.png'')
     = Compared False 1 (Some ''diff/shot.png-diff.png'')
   \<and> fst (compareSnapshot exampleNode (Some exampleVisualConfig)
            \<lparr> width = 2, height = 1, pixels = [5, 1] \<rparr> exampleStore ''home'')
       = DifferenceLogged (Some 1)"
proof -
  let ?stored = "\<lparr> width = 2, height = 1, pixels = [0, 1] \<rparr>"
  let ?actual = "\<lparr> width = 2, height = 1, pixels = [0, 2] \<rparr>"
  let ?shot = "\<lparr> width = 2, height = 1, pixels = [5, 1] \<rparr>"
  have f: "exampleStore ''cypress/screenshots/baseline/home.png'' = Some ?stored"
    "exampleStore ''shot.png'' = Some ?actual"
    "exampleStore (''cypress/screenshots/baseline/'' @ ''home'' @ ''.png'') = Some ?stored"
    by (simp_all add: exampleStore_def)
  have p: "pixelmatch exampleNode (pixels ?stored) (pixels ?actual) (width ?stored)
             (height ?stored) (threshold exampleVisualConfig) = Inr (1, [])"
    "pixelmatch exampleNode (pixels ?stored) (pixels ?shot) (width ?stored)
             (height ?stored) (threshold exampleVisualConfig) = Inr (1, [])"
    by (simp_all add: exampleNode_def)
  have w: "writeError exampleNode (pathJoin exampleNode (diffDir exampleVisualConfig)
             (pathBasename exampleNode ''shot.png'' ''.png'' @ ''-diff.png'')) = None"
    "writeError exampleNode (pathJoin exampleNode (diffDir exampleVisualConfig)
             (pathBasename exampleNode (''cypress/screenshots/actual/'' @ ''home'' @ ''.png'')
                ''.png'' @ ''-diff.png'')) = None"
    by (simp_all add: exampleNode_def)
  have e: "visualEnabled exampleVisualConfig"
    and t: "\<not> real 1 > threshold exampleVisualConfig * 1000"
    by (simp_all add: exampleVisualConfig_def)
  have d: "pathJoin exampleNode (diffDir exampleVisualConfig)
             (pathBasename exampleNode ''shot.png'' ''.png'' @ ''-diff.png'')
           = ''diff/shot.png-diff.png''"
    by (simp add: exampleNode_def exampleVisualConfig_def)
  from passed_iff_no_differing_pixel[of exampleStore "''cypress/screenshots/baseline/home.png''"
      ?stored "''shot.png''" ?actual exampleNode exampleVisualConfig 1 "[]" "''home''" ?stored
      ?shot 1 "[]"]
  show ?thesis
    using f p w e t d by simp
qed

lemma performImageComparison_missing_baseline:
  "files baselinePath = None
   \<Longrightarrow> performImageComparison node config options snapshot baselinePath actualPath files vt
       = (Inl (TaskFailed ''copyFile''), files,
          vt\<lparr>testLogs := testLogs vt @ [NoBaselineFound snapshot]\<rparr>)"
  by (simp add: performImageComparison_def taskRegistered_def registeredTasks_def)

text \<open>
  Claim C8 does not hold of the code. With no image at the baseline path,
  \<open>performImageComparison\<close> calls the task \<open>copyFile\<close>, which the task table does not
  register: the call fails, no baseline is written, and the passing result of the callback
  is never returned. Here the actual image exists at \<open>shot.png\<close> and the baseline path
  \<open>baseline/home.png\<close> is empty before and after.
\<close>

theorem missing_baseline_fails_at_copyFile:
  "exampleStore ''baseline/home.png'' = None
   \<and> exampleStore ''shot.png'' = Some \<lparr> width = 2, height = 1, pixels = [0, 2] \<rparr>
   \<and> fst (performImageComparison exampleNode exampleVisualConfig
         \<lparr> thresholdOption = None, failOnDifference = None \<rparr> ''home'' ''baseline/home.png''
         ''shot.png'' exampleStore \<lparr> testResults = [], testLogs = [] \<rparr>)
       = Inl (TaskFailed ''copyFile'')
   \<and> fst (snd (performImageComparison exampleNode exampleVisualConfig
         \<lparr> thresholdOption = None, failOnDifference = None \<rparr> ''home'' ''baseline/home.png''
         ''shot.png'' exampleStore \<lparr> testResults = [], testLogs = [] \<rparr>)) ''baseline/home.png''
       = None"
proof -
  have b: "exampleStore ''baseline/home.png'' = None"
    and a: "exampleStore ''shot.png'' = Some \<lparr> width = 2, height = 1, pixels = [0, 2] \<rparr>"
    by (simp_all add: exampleStore_def)
  from performImageComparison_missing_baseline[of exampleStore "''baseline/home.png''"] a b
  show ?thesis
    by simp
qed

end
